theory Spec2Isabelle
  imports Main "HOL-Library.Word"
begin

section \<open>The Consul driver of goffkv: data model\<close>

text \<open>
  The driver (\<^verbatim>\<open>src/consul.go\<close>) turns the abstract key-value operations of goffkv into
  batches of Consul KV verbs, runs a batch through the client library and maps the
  outcome back. The client library and the key validator of goffkv are other packages:
  they are parameters of the model (the record \<open>consulapi\<close> below), so every theorem
  holds for whatever they answer.

  Go values are modelled as follows: \<^verbatim>\<open>string\<close> is a byte list (\<open>string\<close>), \<^verbatim>\<open>[]byte\<close> a
  list of 8-bit words, \<^verbatim>\<open>uint64\<close> (versions, modify indices) a 64-bit word, \<^verbatim>\<open>int\<close>
  (lengths, slot indices) an \<open>int\<close>, a nil-able pointer or func an \<open>option\<close>, a
  \<^verbatim>\<open>(value, error)\<close> result a pair whose second component is \<open>None\<close> for \<^verbatim>\<open>nil\<close>. A
  run-time panic (index out of range, nil dereference, close of a closed channel, an
  explicit \<^verbatim>\<open>panic\<close>) is the outcome \<open>Panic\<close>.
\<close>

type_synonym Version = "64 word"
type_synonym bytes = "8 word list"

datatype 'a outcome = Return 'a | Panic string

text \<open>The verbs of \<^verbatim>\<open>consulapi.KVOp\<close> that the driver uses.\<close>

datatype KVOp =
    KVGet | KVGetTree | KVSet | KVCAS | KVLock
  | KVDelete | KVDeleteCAS | KVDeleteTree
  | KVCheckIndex | KVCheckNotExists

text \<open>
  \<^verbatim>\<open>consulapi.TxnOp{KV: &consulapi.KVTxnOp{...}}\<close>: the driver only ever fills the KV
  part, with the fields below; a field left out in the source has Go's zero value.
\<close>

record TxnOp =
  Verb :: KVOp
  Key :: string
  Value :: bytes
  Index :: Version
  Session :: string

definition kvOp :: "KVOp \<Rightarrow> string \<Rightarrow> TxnOp" where
  "kvOp v k = \<lparr>Verb = v, Key = k, Value = [], Index = 0, Session = []\<rparr>"

text \<open>\<^verbatim>\<open>consulapi.KVPair\<close>, \<^verbatim>\<open>TxnResult\<close>, \<^verbatim>\<open>TxnError\<close> and \<^verbatim>\<open>TxnResponse\<close>, as far as read.\<close>

record KVPair =
  pairKey :: string
  ModifyIndex :: Version
  pairValue :: bytes

record TxnResult =
  KV :: "KVPair option"

record consul_TxnError =
  OpIndex :: int
  What :: string

record TxnResponse =
  Results :: "TxnResult list"
  Errors :: "consul_TxnError list"

text \<open>
  The errors a call of the driver can return. \<open>OpErrNoEntry\<close>, \<open>OpErrEntryExists\<close> and
  \<open>TxnError\<close> are goffkv's; \<open>Unexpected\<close> is the \<^verbatim>\<open>fmt.Errorf\<close> of \<open>Create\<close> with its two
  arguments; \<open>Transport\<close> is an error of the client library, passed on as it is;
  \<open>MalformedKey\<close> is the error of goffkv's key validator, passed on as it is.
\<close>

datatype error =
    OpErrNoEntry
  | OpErrEntryExists
  | TxnError int
  | Unexpected string int
  | Transport string
  | MalformedKey

text \<open>
  A \<^verbatim>\<open>goffkv.Watch\<close> is a closure; the model keeps what it captures: the path, the
  version it waits on and whether it calls \<^verbatim>\<open>kv.Get\<close> or \<^verbatim>\<open>kv.List\<close>.
\<close>

datatype Watch = WatchGet string Version | WatchList string Version

text \<open>goffkv's transaction request and result.\<close>

datatype OpKind = Create_op | Set_op | Erase_op

record TxnCheck =
  checkKey :: string
  checkVer :: Version

record goffkv_TxnOp =
  opWhat :: OpKind
  opKey :: string
  opValue :: bytes
  opLease :: bool

record Txn =
  Checks :: "TxnCheck list"
  Ops :: "goffkv_TxnOp list"

datatype TxnOpResult = TxnOpResult OpKind Version

text \<open>
  The stop channel of the renewal task: the field is nil or refers to a channel, which
  is open or closed. The driver holds the only sending reference, so the state of the
  channel is kept with the field.
\<close>

datatype chan = ChanOpen | ChanClosed

record consulClient =
  prefixSegments :: "string list"
  sessionId :: string
  sessionRenewDoneCh :: "chan option"

text \<open>
  What the driver calls outside its own package, over a state \<open>'w\<close> of the backing
  store: goffkv's \<^verbatim>\<open>DisassembleKey\<close> (\<open>None\<close> for a rejected key), \<^verbatim>\<open>session.Create\<close>,
  \<^verbatim>\<open>txn.Txn\<close> and \<^verbatim>\<open>kv.Get\<close>. \<open>Inl\<close> is the library's error.
\<close>

record 'w consulapi =
  DisassembleKey :: "string \<Rightarrow> string list option"
  sessionCreate :: "'w \<Rightarrow> (string + string) \<times> 'w"
  txnTxn :: "TxnOp list \<Rightarrow> 'w \<Rightarrow> (string + bool \<times> TxnResponse) \<times> 'w"
  kvGet :: "string \<Rightarrow> 'w \<Rightarrow> (string + KVPair option) \<times> 'w"

record 'w machine =
  client :: consulClient
  world :: "'w"

section \<open>Paths\<close>

text \<open>\<^verbatim>\<open>strings.Join\<close>.\<close>

fun Join :: "string list \<Rightarrow> string \<Rightarrow> string" where
  "Join [] sep = []"
| "Join [s] sep = s"
| "Join (s # t # ss) sep = s @ sep @ Join (t # ss) sep"

definition assemblePath :: "consulClient \<Rightarrow> string list \<Rightarrow> string" where
  "assemblePath c segments = Join (prefixSegments c @ segments) ''/''"

text \<open>\<^verbatim>\<open>strings.LastIndexByte\<close>: the index of the last occurrence, or -1.\<close>

fun lastIndexFrom :: "int \<Rightarrow> int \<Rightarrow> string \<Rightarrow> char \<Rightarrow> int" where
  "lastIndexFrom i found [] c = found"
| "lastIndexFrom i found (x # xs) c = lastIndexFrom (i + 1) (if x = c then i else found) xs c"

definition LastIndexByte :: "string \<Rightarrow> char \<Rightarrow> int" where
  "LastIndexByte s c = lastIndexFrom 0 (- 1) s c"

text \<open>The slice \<^verbatim>\<open>s[n:]\<close>, which panics outside \<open>0 .. len(s)\<close>.\<close>

definition sliceFrom :: "string \<Rightarrow> int \<Rightarrow> string outcome" where
  "sliceFrom s n =
     (if n < 0 \<or> int (length s) < n then Panic ''slice bounds out of range''
      else Return (drop (nat n) s))"

definition detachChild :: "string \<Rightarrow> int \<Rightarrow> int \<Rightarrow> string outcome" where
  "detachChild path nPrefix nGlobalPrefix =
     (let lastSlash = LastIndexByte path CHR ''/'' in
      if lastSlash \<ge> nPrefix then Return ''''
      else if nGlobalPrefix = 0 then Return (''/'' @ path)
      else sliceFrom path nGlobalPrefix)"

section \<open>The session\<close>

definition maybeGetParent :: "consulClient \<Rightarrow> string list \<Rightarrow> TxnOp list" where
  "maybeGetParent c segments =
     (if length segments > 1
      then [kvOp KVGet (assemblePath c (take (length segments - 1) segments))]
      else [])"

text \<open>
  \<^verbatim>\<open>getOrCreateSessionId\<close>. The renewal goroutine it starts runs beside the driver and is
  not part of the model; the channel it is given is.
\<close>

definition getOrCreateSessionId ::
  "'w consulapi \<Rightarrow> 'w machine \<Rightarrow> (string \<times> error option) \<times> 'w machine" where
  "getOrCreateSessionId api m =
     (if sessionId (client m) \<noteq> '''' then ((sessionId (client m), None), m)
      else (case sessionCreate api (world m) of
              (Inl err, w') \<Rightarrow> (('''', Some (Transport err)), m\<lparr>world := w'\<rparr>)
            | (Inr sid, w') \<Rightarrow>
                ((sid, None),
                 \<lparr>client = (client m)\<lparr>sessionRenewDoneCh := Some ChanOpen, sessionId := sid\<rparr>,
                  world = w'\<rparr>)))"

section \<open>Single operations\<close>

text \<open>\<^verbatim>\<open>results[len(results) - 1].KV.ModifyIndex\<close>, shared by Create, Set and Cas.\<close>

definition lastModifyIndex :: "TxnResult list \<Rightarrow> Version outcome" where
  "lastModifyIndex results =
     (if results = [] then Panic ''index out of range''
      else (case KV (last results) of
              None \<Rightarrow> Panic ''nil pointer dereference''
            | Some kv \<Rightarrow> Return (ModifyIndex kv)))"

definition Create ::
  "'w consulapi \<Rightarrow> string \<Rightarrow> bytes \<Rightarrow> bool \<Rightarrow> 'w machine
     \<Rightarrow> (Version \<times> error option) outcome \<times> 'w machine" where
  "Create api key value lease m =
     (case DisassembleKey api key of
        None \<Rightarrow> (Return (0, Some MalformedKey), m)
      | Some segments \<Rightarrow>
          let c = client m;
              checkParentOps = maybeGetParent c segments;
              ops = checkParentOps @ [kvOp KVCheckNotExists (assemblePath c segments)];
              (built, m1) =
                (if lease then
                   (case getOrCreateSessionId api m of
                      ((sid, Some err), m') \<Rightarrow> (Inl err, m')
                    | ((sid, None), m') \<Rightarrow>
                        (Inr (ops @ [\<lparr>Verb = KVLock, Key = assemblePath c segments,
                                      Value = value, Index = 0, Session = sid\<rparr>]), m'))
                 else
                   (Inr (ops @ [\<lparr>Verb = KVSet, Key = assemblePath c segments,
                                 Value = value, Index = 0, Session = []\<rparr>]), m))
          in (case built of
                Inl err \<Rightarrow> (Return (0, Some err), m1)
              | Inr ops' \<Rightarrow>
                  (case txnTxn api ops' (world m1) of
                     (Inl err, w') \<Rightarrow> (Return (0, Some (Transport err)), m1\<lparr>world := w'\<rparr>)
                   | (Inr (ok, ret), w') \<Rightarrow>
                       (if ok then
                          (case lastModifyIndex (Results ret) of
                             Panic msg \<Rightarrow> Panic msg
                           | Return v \<Rightarrow> Return (v, None))
                        else
                          (case Errors ret of
                             [] \<Rightarrow> Panic ''index out of range''
                           | firstError # _ \<Rightarrow>
                               if OpIndex firstError < int (length checkParentOps)
                               then Return (0, Some OpErrNoEntry)
                               else if OpIndex firstError = int (length checkParentOps)
                               then Return (0, Some OpErrEntryExists)
                               else Return (0, Some (Unexpected (What firstError)
                                                               (OpIndex firstError)))),
                        m1\<lparr>world := w'\<rparr>))))"

definition Set ::
  "'w consulapi \<Rightarrow> string \<Rightarrow> bytes \<Rightarrow> 'w machine
     \<Rightarrow> (Version \<times> error option) outcome \<times> 'w machine" where
  "Set api key value m =
     (case DisassembleKey api key of
        None \<Rightarrow> (Return (0, Some MalformedKey), m)
      | Some segments \<Rightarrow>
          let c = client m;
              ops = maybeGetParent c segments
                    @ [\<lparr>Verb = KVSet, Key = assemblePath c segments,
                        Value = value, Index = 0, Session = []\<rparr>]
          in (case txnTxn api ops (world m) of
                (Inl err, w') \<Rightarrow> (Return (0, Some (Transport err)), m\<lparr>world := w'\<rparr>)
              | (Inr (ok, ret), w') \<Rightarrow>
                  (if ok then
                     (case lastModifyIndex (Results ret) of
                        Panic msg \<Rightarrow> Panic msg
                      | Return v \<Rightarrow> Return (v, None))
                   else Return (0, Some OpErrNoEntry),
                   m\<lparr>world := w'\<rparr>)))"

definition Cas ::
  "'w consulapi \<Rightarrow> string \<Rightarrow> bytes \<Rightarrow> Version \<Rightarrow> 'w machine
     \<Rightarrow> (Version \<times> error option) outcome \<times> 'w machine" where
  "Cas api key value ver m =
     (if ver = 0 then
        (case Create api key value False m of
           (Panic msg, m') \<Rightarrow> (Panic msg, m')
         | (Return (resultVer, None), m') \<Rightarrow> (Return (resultVer, None), m')
         | (Return (resultVer, Some err), m') \<Rightarrow>
             if err = OpErrEntryExists then (Return (0, None), m')
             else (Return (0, Some err), m'))
      else
        (case DisassembleKey api key of
           None \<Rightarrow> (Return (0, Some MalformedKey), m)
         | Some segments \<Rightarrow>
             let c = client m;
                 ops = [kvOp KVGet (assemblePath c segments),
                        \<lparr>Verb = KVCAS, Key = assemblePath c segments,
                         Value = value, Index = ver, Session = []\<rparr>]
             in (case txnTxn api ops (world m) of
                   (Inl err, w') \<Rightarrow> (Return (0, Some (Transport err)), m\<lparr>world := w'\<rparr>)
                 | (Inr (ok, ret), w') \<Rightarrow>
                     (if ok then
                        (case lastModifyIndex (Results ret) of
                           Panic msg \<Rightarrow> Panic msg
                         | Return v \<Rightarrow> Return (v, None))
                      else
                        (case Errors ret of
                           [] \<Rightarrow> Panic ''index out of range''
                         | firstError # _ \<Rightarrow>
                             if OpIndex firstError = 0 then Return (0, Some OpErrNoEntry)
                             else Return (0, None)),
                      m\<lparr>world := w'\<rparr>))))"

definition Erase ::
  "'w consulapi \<Rightarrow> string \<Rightarrow> Version \<Rightarrow> 'w machine \<Rightarrow> error option outcome \<times> 'w machine" where
  "Erase api key ver m =
     (case DisassembleKey api key of
        None \<Rightarrow> (Return (Some MalformedKey), m)
      | Some segments \<Rightarrow>
          let c = client m;
              ops = [kvOp KVGet (assemblePath c segments)]
                    @ (if ver = 0 then [kvOp KVDelete (assemblePath c segments)]
                       else [\<lparr>Verb = KVDeleteCAS, Key = assemblePath c segments,
                              Value = [], Index = ver, Session = []\<rparr>])
                    @ [kvOp KVDeleteTree (assemblePath c segments @ ''/'')]
          in (case txnTxn api ops (world m) of
                (Inl err, w') \<Rightarrow> (Return (Some (Transport err)), m\<lparr>world := w'\<rparr>)
              | (Inr (ok, ret), w') \<Rightarrow>
                  (if \<not> ok then
                     (case Errors ret of
                        [] \<Rightarrow> Panic ''index out of range''
                      | firstError # _ \<Rightarrow>
                          if OpIndex firstError = 0 then Return (Some OpErrNoEntry)
                          else Return None)
                   else Return None,
                   m\<lparr>world := w'\<rparr>)))"

section \<open>Reads\<close>

definition Exists ::
  "'w consulapi \<Rightarrow> string \<Rightarrow> bool \<Rightarrow> 'w machine
     \<Rightarrow> (Version \<times> Watch option \<times> error option) \<times> 'w machine" where
  "Exists api key watch m =
     (case DisassembleKey api key of
        None \<Rightarrow> ((0, None, Some MalformedKey), m)
      | Some segments \<Rightarrow>
          let frozenPath = assemblePath (client m) segments
          in (case kvGet api frozenPath (world m) of
                (Inl err, w') \<Rightarrow> ((0, None, Some (Transport err)), m\<lparr>world := w'\<rparr>)
              | (Inr None, w') \<Rightarrow> ((0, None, None), m\<lparr>world := w'\<rparr>)
              | (Inr (Some kv), w') \<Rightarrow>
                  let resultVer = ModifyIndex kv;
                      resultWatch = (if watch then Some (WatchGet frozenPath resultVer)
                                     else None)
                  in ((resultVer, resultWatch, None), m\<lparr>world := w'\<rparr>)))"

definition Get ::
  "'w consulapi \<Rightarrow> string \<Rightarrow> bool \<Rightarrow> 'w machine
     \<Rightarrow> (Version \<times> bytes \<times> Watch option \<times> error option) \<times> 'w machine" where
  "Get api key watch m =
     (case DisassembleKey api key of
        None \<Rightarrow> ((0, [], None, Some MalformedKey), m)
      | Some segments \<Rightarrow>
          let frozenPath = assemblePath (client m) segments
          in (case kvGet api frozenPath (world m) of
                (Inl err, w') \<Rightarrow> ((0, [], None, Some (Transport err)), m\<lparr>world := w'\<rparr>)
              | (Inr None, w') \<Rightarrow> ((0, [], None, Some OpErrNoEntry), m\<lparr>world := w'\<rparr>)
              | (Inr (Some kv), w') \<Rightarrow>
                  let resultVer = ModifyIndex kv;
                      resultWatch = (if watch then Some (WatchGet frozenPath resultVer)
                                     else None)
                  in ((resultVer, pairValue kv, resultWatch, None), m\<lparr>world := w'\<rparr>)))"

text \<open>The first loop of \<open>Children\<close>, over all results but the last.\<close>

fun collectChildren :: "TxnResult list \<Rightarrow> int \<Rightarrow> int \<Rightarrow> string list \<Rightarrow> string list outcome" where
  "collectChildren [] nPrefix nGlobalPrefix children = Return children"
| "collectChildren (r # rs) nPrefix nGlobalPrefix children =
     (case KV r of
        None \<Rightarrow> Panic ''nil pointer dereference''
      | Some kv \<Rightarrow>
          (case detachChild (pairKey kv) nPrefix nGlobalPrefix of
             Panic msg \<Rightarrow> Panic msg
           | Return child \<Rightarrow>
               collectChildren rs nPrefix nGlobalPrefix
                 (if child \<noteq> '''' then children @ [child] else children)))"

text \<open>Its second loop: the greatest modify index of the results.\<close>

fun maxModifyIndex :: "TxnResult list \<Rightarrow> Version \<Rightarrow> Version outcome" where
  "maxModifyIndex [] ver = Return ver"
| "maxModifyIndex (r # rs) ver =
     (case KV r of
        None \<Rightarrow> Panic ''nil pointer dereference''
      | Some kv \<Rightarrow> maxModifyIndex rs (if ModifyIndex kv > ver then ModifyIndex kv else ver))"

definition Children ::
  "'w consulapi \<Rightarrow> string \<Rightarrow> bool \<Rightarrow> 'w machine
     \<Rightarrow> (string list \<times> Watch option \<times> error option) outcome \<times> 'w machine" where
  "Children api key watch m =
     (case DisassembleKey api key of
        None \<Rightarrow> (Return ([], None, Some MalformedKey), m)
      | Some segments \<Rightarrow>
          let c = client m;
              frozenPath = assemblePath c segments;
              frozenPrefix = frozenPath @ ''/'';
              ops = [kvOp KVGetTree frozenPrefix, kvOp KVGet frozenPath]
          in (case txnTxn api ops (world m) of
                (Inl err, w') \<Rightarrow> (Return ([], None, Some (Transport err)), m\<lparr>world := w'\<rparr>)
              | (Inr (ok, ret), w') \<Rightarrow>
                  (if \<not> ok then Return ([], None, Some OpErrNoEntry)
                   else
                     let results = Results ret;
                         globalPrefixLength = int (length (assemblePath c []))
                     in (case collectChildren (butlast results)
                                (int (length frozenPrefix)) globalPrefixLength [] of
                           Panic msg \<Rightarrow> Panic msg
                         | Return children \<Rightarrow>
                             if watch then
                               (case maxModifyIndex results 0 of
                                  Panic msg \<Rightarrow> Panic msg
                                | Return ver \<Rightarrow>
                                    Return (children, Some (WatchList frozenPath ver), None))
                             else Return (children, None, None)),
                   m\<lparr>world := w'\<rparr>)))"

section \<open>Transactions\<close>

datatype resultKind = rkCreate | rkSet | rkAux

fun toUserOpIndexFrom :: "int \<Rightarrow> int list \<Rightarrow> int \<Rightarrow> int" where
  "toUserOpIndexFrom i [] op = - 1"
| "toUserOpIndexFrom i (x # xs) op = (if x \<ge> op then i else toUserOpIndexFrom (i + 1) xs op)"

definition toUserOpIndex :: "int list \<Rightarrow> int \<Rightarrow> int" where
  "toUserOpIndex boundaries op = toUserOpIndexFrom 0 boundaries op"

text \<open>The loop of \<open>Commit\<close> over \<^verbatim>\<open>txn.Checks\<close>.\<close>

fun addChecks ::
  "'w consulapi \<Rightarrow> consulClient \<Rightarrow> TxnCheck list \<Rightarrow> TxnOp list \<Rightarrow> int list \<Rightarrow> resultKind list
     \<Rightarrow> error + TxnOp list \<times> int list \<times> resultKind list" where
  "addChecks api c [] ops boundaries rks = Inr (ops, boundaries, rks)"
| "addChecks api c (check # rest) ops boundaries rks =
     (case DisassembleKey api (checkKey check) of
        None \<Rightarrow> Inl MalformedKey
      | Some segments \<Rightarrow>
          let ops' = ops @ [if checkVer check = 0
                            then kvOp KVGet (assemblePath c segments)
                            else \<lparr>Verb = KVCheckIndex, Key = assemblePath c segments,
                                  Value = [], Index = checkVer check, Session = []\<rparr>]
          in addChecks api c rest ops' (boundaries @ [int (length ops') - 1]) (rks @ [rkAux]))"

text \<open>
  The loop of \<open>Commit\<close> over \<^verbatim>\<open>txn.Ops\<close>. The check-not-exists of a create and the two
  deletes of an erase get no entry in \<open>rks\<close>.
\<close>

fun addOps ::
  "'w consulapi \<Rightarrow> goffkv_TxnOp list \<Rightarrow> TxnOp list \<Rightarrow> int list \<Rightarrow> resultKind list \<Rightarrow> 'w machine
     \<Rightarrow> (error + TxnOp list \<times> int list \<times> resultKind list) \<times> 'w machine" where
  "addOps api [] ops boundaries rks m = (Inr (ops, boundaries, rks), m)"
| "addOps api (op # rest) ops boundaries rks m =
     (case DisassembleKey api (opKey op) of
        None \<Rightarrow> (Inl MalformedKey, m)
      | Some segments \<Rightarrow>
          let c = client m; path = assemblePath c segments in
          (case opWhat op of
             Create_op \<Rightarrow>
               let getParentOp = maybeGetParent c segments;
                   ops1 = ops @ getParentOp @ [kvOp KVCheckNotExists path];
                   rks1 = rks @ map (\<lambda>_. rkAux) getParentOp
               in if opLease op then
                    (case getOrCreateSessionId api m of
                       ((sid, Some err), m') \<Rightarrow> (Inl err, m')
                     | ((sid, None), m') \<Rightarrow>
                         let ops2 = ops1 @ [\<lparr>Verb = KVLock, Key = path, Value = opValue op,
                                              Index = 0, Session = sid\<rparr>]
                         in addOps api rest ops2 (boundaries @ [int (length ops2) - 1])
                              (rks1 @ [rkCreate]) m')
                  else
                    let ops2 = ops1 @ [\<lparr>Verb = KVSet, Key = path, Value = opValue op,
                                         Index = 0, Session = []\<rparr>]
                    in addOps api rest ops2 (boundaries @ [int (length ops2) - 1])
                         (rks1 @ [rkCreate]) m
           | Set_op \<Rightarrow>
               let ops2 = ops @ [kvOp KVGet path,
                                 \<lparr>Verb = KVSet, Key = path, Value = opValue op,
                                  Index = 0, Session = []\<rparr>]
               in addOps api rest ops2 (boundaries @ [int (length ops2) - 1])
                    (rks @ [rkAux, rkSet]) m
           | Erase_op \<Rightarrow>
               let ops2 = ops @ [kvOp KVGet path, kvOp KVDelete path,
                                 kvOp KVDeleteTree (path @ ''/'')]
               in addOps api rest ops2 (boundaries @ [int (length ops2) - 1])
                    (rks @ [rkAux]) m))"

text \<open>The batch of \<open>Commit\<close>, before it is sent: both loops, from the empty arrays.\<close>

definition buildBatch ::
  "'w consulapi \<Rightarrow> Txn \<Rightarrow> 'w machine
     \<Rightarrow> (error + TxnOp list \<times> int list \<times> resultKind list) \<times> 'w machine" where
  "buildBatch api txn m =
     (case addChecks api (client m) (Checks txn) [] [] [] of
        Inl err \<Rightarrow> (Inl err, m)
      | Inr (ops, boundaries, rks) \<Rightarrow> addOps api (Ops txn) ops boundaries rks m)"

text \<open>The loop of \<open>Commit\<close> over the results of a committed batch.\<close>

fun collectAnswer ::
  "TxnResult list \<Rightarrow> resultKind list \<Rightarrow> TxnOpResult list \<Rightarrow> TxnOpResult list outcome" where
  "collectAnswer [] rks answer = Return answer"
| "collectAnswer (r # rs) rks answer =
     (case KV r of
        None \<Rightarrow> Panic ''nil pointer dereference''
      | Some kv \<Rightarrow>
          (case rks of
             [] \<Rightarrow> Panic ''index out of range''
           | rk # rks' \<Rightarrow>
               collectAnswer rs rks'
                 (case rk of
                    rkCreate \<Rightarrow> answer @ [TxnOpResult Create_op (ModifyIndex kv)]
                  | rkSet \<Rightarrow> answer @ [TxnOpResult Set_op (ModifyIndex kv)]
                  | rkAux \<Rightarrow> answer)))"

definition Commit ::
  "'w consulapi \<Rightarrow> Txn \<Rightarrow> 'w machine
     \<Rightarrow> (TxnOpResult list \<times> error option) outcome \<times> 'w machine" where
  "Commit api txn m =
     (case buildBatch api txn m of
        (Inl err, m1) \<Rightarrow> (Return ([], Some err), m1)
      | (Inr (ops, boundaries, rks), m1) \<Rightarrow>
          (case txnTxn api ops (world m1) of
             (Inl err, w') \<Rightarrow> (Return ([], Some (Transport err)), m1\<lparr>world := w'\<rparr>)
           | (Inr (ok, ret), w') \<Rightarrow>
               (if ok then
                  (case collectAnswer (Results ret) rks [] of
                     Panic msg \<Rightarrow> Panic msg
                   | Return answer \<Rightarrow> Return (answer, None))
                else
                  (case Errors ret of
                     [] \<Rightarrow> Panic ''index out of range''
                   | firstError # _ \<Rightarrow>
                       let userIndex = toUserOpIndex boundaries (OpIndex firstError)
                       in if userIndex < 0 then Panic ''txn failed on non-existing op''
                          else Return ([], Some (TxnError userIndex))),
                m1\<lparr>world := w'\<rparr>)))"

section \<open>Construction and shutdown\<close>

text \<open>
  The client that \<open>New\<close> returns once goffkv has split the prefix into \<open>segs\<close> and the
  library has accepted the address.
\<close>

definition New :: "string list \<Rightarrow> consulClient" where
  "New segs = \<lparr>prefixSegments = segs, sessionId = '''', sessionRenewDoneCh = None\<rparr>"

text \<open>\<open>Close\<close>; Go's \<^verbatim>\<open>close\<close> panics on a channel that is closed already.\<close>

definition Close :: "consulClient \<Rightarrow> unit outcome \<times> consulClient" where
  "Close c =
     (case sessionRenewDoneCh c of
        None \<Rightarrow> (Return (), c)
      | Some ChanOpen \<Rightarrow> (Return (), c\<lparr>sessionRenewDoneCh := Some ChanClosed\<rparr>)
      | Some ChanClosed \<Rightarrow> (Panic ''close of closed channel'', c))"

section \<open>Notions used in the statements\<close>

text \<open>The path has a \<^verbatim>\<open>/\<close> at position \<open>n\<close> or later.\<close>

definition hasSlashFrom :: "string \<Rightarrow> int \<Rightarrow> bool" where
  "hasSlashFrom path n \<longleftrightarrow> CHR ''/'' \<in> set (drop (nat n) path)"

text \<open>
  The verbs whose slot has an entry in the results of a committed batch, as the comments
  of \<open>Commit\<close> have it: check-not-exists, delete and delete-tree produce no result.
\<close>

fun yieldsResult :: "KVOp \<Rightarrow> bool" where
  "yieldsResult KVCheckNotExists = False"
| "yieldsResult KVDelete = False"
| "yieldsResult KVDeleteTree = False"
| "yieldsResult v = True"

text \<open>
  The arrays of \<open>Commit\<close> fit the batch: the tags in \<open>rks\<close> go with the slots that
  produce a result, in order, \<open>rkAux\<close> for the reading verbs and the other tags for the
  writing ones; the boundaries increase, lie inside the batch, and the last of them is
  the last slot.
\<close>

definition fitsBatch :: "TxnOp list \<Rightarrow> int list \<Rightarrow> resultKind list \<Rightarrow> bool" where
  "fitsBatch ops boundaries rks \<longleftrightarrow>
     map (\<lambda>rk. rk = rkAux) rks
       = map (\<lambda>op. Verb op = KVGet \<or> Verb op = KVCheckIndex)
             (filter (\<lambda>op. yieldsResult (Verb op)) ops)
     \<and> sorted_wrt (<) boundaries
     \<and> list_all (\<lambda>b. 0 \<le> b \<and> b < int (length ops)) boundaries
     \<and> (if ops = [] then boundaries = []
         else boundaries \<noteq> [] \<and> last boundaries = int (length ops) - 1)"

section \<open>A scripted backing store\<close>

text \<open>
  To run the driver on concrete inputs: a key validator that accepts \<^verbatim>\<open>/a/b\<close> as the
  segments \<^verbatim>\<open>a\<close>, \<^verbatim>\<open>b\<close> and rejects empty segments, and a library whose answers are
  given as functions of the request. Its state counts the round trips. No theorem below
  depends on them except the evaluations at concrete inputs.
\<close>

fun splitSlash :: "string \<Rightarrow> string list" where
  "splitSlash [] = [[]]"
| "splitSlash (c # cs) =
     (if c = CHR ''/'' then [] # splitSlash cs
      else (case splitSlash cs of
              [] \<Rightarrow> [[c]]
            | s # ss \<Rightarrow> (c # s) # ss))"

definition sampleDisassembleKey :: "string \<Rightarrow> string list option" where
  "sampleDisassembleKey key =
     (case key of
        [] \<Rightarrow> None
      | c # rest \<Rightarrow>
          if c \<noteq> CHR ''/'' then None
          else let segs = splitSlash rest in if [] \<in> set segs then None else Some segs)"

definition scriptedApi ::
  "(TxnOp list \<Rightarrow> string + bool \<times> TxnResponse) \<Rightarrow> (string \<Rightarrow> string + KVPair option)
     \<Rightarrow> nat consulapi" where
  "scriptedApi txnReply getReply =
     \<lparr>DisassembleKey = sampleDisassembleKey,
      sessionCreate = (\<lambda>w. (Inr ''session-1'', Suc w)),
      txnTxn = (\<lambda>ops w. (txnReply ops, Suc w)),
      kvGet = (\<lambda>path w. (getReply path, Suc w))\<rparr>"

definition resultAt :: "string \<Rightarrow> Version \<Rightarrow> TxnResult" where
  "resultAt path ver = \<lparr>KV = Some \<lparr>pairKey = path, ModifyIndex = ver, pairValue = []\<rparr>\<rparr>"

definition failedAt :: "int \<Rightarrow> string + bool \<times> TxnResponse" where
  "failedAt slot = Inr (False, \<lparr>Results = [], Errors = [\<lparr>OpIndex = slot, What = ''failed''\<rparr>]\<rparr>)"

definition committed :: "TxnResult list \<Rightarrow> string + bool \<times> TxnResponse" where
  "committed results = Inr (True, \<lparr>Results = results, Errors = []\<rparr>)"

section \<open>Properties of the path functions\<close>

lemma lastIndexFrom_append:
  "lastIndexFrom i found (xs @ ys) c
     = lastIndexFrom (i + int (length xs)) (lastIndexFrom i found xs c) ys c"
  by (induction xs arbitrary: i found) (simp_all add: add.assoc)

lemma LastIndexByte_snoc:
  "LastIndexByte (xs @ [x]) c = (if x = c then int (length xs) else LastIndexByte xs c)"
  by (simp add: LastIndexByte_def lastIndexFrom_append)

lemma LastIndexByte_ge_iff:
  "n \<le> LastIndexByte s c \<longleftrightarrow> n \<le> - 1 \<or> (\<exists>k<length s. s ! k = c \<and> n \<le> int k)"
proof (induction s rule: rev_induct)
  case Nil
  show ?case by (simp add: LastIndexByte_def)
next
  case (snoc x xs)
  show ?case
  proof (cases "x = c")
    case True
    have A: "(\<exists>k<length (xs @ [x]). (xs @ [x]) ! k = c \<and> n \<le> int k) \<longleftrightarrow> n \<le> int (length xs)"
    proof
      assume "\<exists>k<length (xs @ [x]). (xs @ [x]) ! k = c \<and> n \<le> int k"
      then obtain k where "k < length (xs @ [x])" "n \<le> int k" by blast
      then show "n \<le> int (length xs)" by simp
    next
      assume "n \<le> int (length xs)"
      moreover have "length xs < length (xs @ [x])" by simp
      moreover have "(xs @ [x]) ! length xs = c" using True by simp
      ultimately show "\<exists>k<length (xs @ [x]). (xs @ [x]) ! k = c \<and> n \<le> int k" by blast
    qed
    have B: "LastIndexByte (xs @ [x]) c = int (length xs)"
      using True by (simp add: LastIndexByte_snoc)
    show ?thesis unfolding A B by linarith
  next
    case False
    have "(\<exists>k<length (xs @ [x]). (xs @ [x]) ! k = c \<and> n \<le> int k)
          \<longleftrightarrow> (\<exists>k<length xs. xs ! k = c \<and> n \<le> int k)"
    proof
      assume "\<exists>k<length (xs @ [x]). (xs @ [x]) ! k = c \<and> n \<le> int k"
      then obtain k where k: "k < length (xs @ [x])" "(xs @ [x]) ! k = c" "n \<le> int k" by blast
      have "k \<noteq> length xs" using k(2) False by auto
      then have "k < length xs" using k(1) by simp
      moreover from this have "xs ! k = c" using k(2) by (simp add: nth_append)
      ultimately show "\<exists>k<length xs. xs ! k = c \<and> n \<le> int k" using k(3) by blast
    next
      assume "\<exists>k<length xs. xs ! k = c \<and> n \<le> int k"
      then obtain k where k: "k < length xs" "xs ! k = c" "n \<le> int k" by blast
      then have "k < length (xs @ [x])" "(xs @ [x]) ! k = c" by (simp_all add: nth_append)
      then show "\<exists>k<length (xs @ [x]). (xs @ [x]) ! k = c \<and> n \<le> int k" using k(3) by blast
    qed
    moreover have "LastIndexByte (xs @ [x]) c = LastIndexByte xs c"
      using False by (simp add: LastIndexByte_snoc)
    ultimately show ?thesis using snoc by simp
  qed
qed

lemma hasSlashFrom_iff:
  "hasSlashFrom path n \<longleftrightarrow> (\<exists>k<length path. path ! k = CHR ''/'' \<and> n \<le> int k)"
proof
  assume "hasSlashFrom path n"
  then obtain j where j: "j < length (drop (nat n) path)" "drop (nat n) path ! j = CHR ''/''"
    unfolding hasSlashFrom_def in_set_conv_nth by blast
  then have "nat n + j < length path" "path ! (nat n + j) = CHR ''/''" "n \<le> int (nat n + j)"
    by auto
  then show "\<exists>k<length path. path ! k = CHR ''/'' \<and> n \<le> int k" by blast
next
  assume "\<exists>k<length path. path ! k = CHR ''/'' \<and> n \<le> int k"
  then obtain k where k: "k < length path" "path ! k = CHR ''/''" "n \<le> int k" by blast
  then have "k - nat n < length (drop (nat n) path)" "drop (nat n) path ! (k - nat n) = CHR ''/''"
    by auto
  then show "hasSlashFrom path n"
    unfolding hasSlashFrom_def in_set_conv_nth by blast
qed

lemma detachChild_eq:
  assumes "0 \<le> nPrefix" and "0 \<le> nGlobalPrefix" and "nGlobalPrefix \<le> int (length path)"
  shows "detachChild path nPrefix nGlobalPrefix =
     Return (if hasSlashFrom path nPrefix then ''''
             else if nGlobalPrefix = 0 then ''/'' @ path
             else drop (nat nGlobalPrefix) path)"
proof -
  have "nPrefix \<le> LastIndexByte path CHR ''/'' \<longleftrightarrow> hasSlashFrom path nPrefix"
    using assms(1) by (simp add: LastIndexByte_ge_iff hasSlashFrom_iff)
  then show ?thesis
    using assms by (simp add: detachChild_def sliceFrom_def Let_def)
qed

lemma toUserOpIndexFrom_found:
  "i0 < length bs \<Longrightarrow> op \<le> bs ! i0 \<Longrightarrow> (\<forall>j<i0. bs ! j < op)
     \<Longrightarrow> toUserOpIndexFrom i bs op = i + int i0"
proof (induction bs arbitrary: i i0)
  case Nil
  then show ?case by simp
next
  case (Cons b bs)
  show ?case
  proof (cases i0)
    case 0
    then show ?thesis using Cons.prems by simp
  next
    case (Suc k)
    have "b < op" using Cons.prems(3) Suc by auto
    moreover have "toUserOpIndexFrom (i + 1) bs op = (i + 1) + int k"
      using Cons.prems Suc by (intro Cons.IH) auto
    ultimately show ?thesis using Suc by simp
  qed
qed

lemma toUserOpIndexFrom_none:
  "(\<forall>j<length bs. bs ! j < op) \<Longrightarrow> toUserOpIndexFrom i bs op = - 1"
proof (induction bs arbitrary: i)
  case Nil
  then show ?case by simp
next
  case (Cons b bs)
  have "b < op" using Cons.prems by auto
  moreover have "\<forall>j<length bs. bs ! j < op" using Cons.prems by auto
  ultimately show ?case using Cons.IH by simp
qed

lemma detachChild_nonempty_direct:
  assumes "detachChild path nPrefix nGlobalPrefix = Return child" and "child \<noteq> []"
  shows "\<not> hasSlashFrom path nPrefix"
proof
  assume "hasSlashFrom path nPrefix"
  then have "nPrefix \<le> LastIndexByte path CHR ''/''"
    by (simp add: LastIndexByte_ge_iff hasSlashFrom_iff)
  then have "detachChild path nPrefix nGlobalPrefix = Return []"
    by (simp add: detachChild_def)
  with assms show False by simp
qed

lemma collectChildren_direct:
  "collectChildren rs nPrefix nGlobalPrefix acc = Return children \<Longrightarrow> child \<in> set children
     \<Longrightarrow> child \<in> set acc \<or>
         (\<exists>r\<in>set rs. \<exists>kv. KV r = Some kv \<and> \<not> hasSlashFrom (pairKey kv) nPrefix
                \<and> detachChild (pairKey kv) nPrefix nGlobalPrefix = Return child)"
proof (induction rs arbitrary: acc)
  case Nil
  then show ?case by simp
next
  case (Cons r rs)
  from Cons.prems(1) obtain kv ch where kv: "KV r = Some kv"
    and ch: "detachChild (pairKey kv) nPrefix nGlobalPrefix = Return ch"
    and rest: "collectChildren rs nPrefix nGlobalPrefix (if ch \<noteq> [] then acc @ [ch] else acc)
                 = Return children"
    by (auto split: option.splits outcome.splits)
  from Cons.IH [OF rest Cons.prems(2)]
  consider "child \<in> set (if ch \<noteq> [] then acc @ [ch] else acc)"
    | "\<exists>r\<in>set rs. \<exists>kv. KV r = Some kv \<and> \<not> hasSlashFrom (pairKey kv) nPrefix
                \<and> detachChild (pairKey kv) nPrefix nGlobalPrefix = Return child"
    by blast
  then show ?case
  proof cases
    case 1
    show ?thesis
    proof (cases "child \<in> set acc")
      case True
      then show ?thesis by simp
    next
      case False
      with 1 have "ch \<noteq> []" "child = ch" by (auto split: if_splits)
      then have "\<not> hasSlashFrom (pairKey kv) nPrefix"
        using detachChild_nonempty_direct [OF ch] by simp
      with kv ch \<open>child = ch\<close> show ?thesis by auto
    qed
  next
    case 2
    then show ?thesis by auto
  qed
qed

lemma Children_direct:
  assumes key: "DisassembleKey api key = Some segments"
    and reply: "txnTxn api [kvOp KVGetTree (assemblePath (client m) segments @ ''/''),
                            kvOp KVGet (assemblePath (client m) segments)] (world m)
                  = (Inr (True, ret), w')"
    and res: "fst (Children api key watch m) = Return (children, wt, err)"
    and child: "child \<in> set children"
  shows "\<exists>r kv. r \<in> set (butlast (Results ret)) \<and> KV r = Some kv
            \<and> \<not> hasSlashFrom (pairKey kv) (int (length (assemblePath (client m) segments @ ''/'')))
            \<and> detachChild (pairKey kv) (int (length (assemblePath (client m) segments @ ''/'')))
                  (int (length (assemblePath (client m) []))) = Return child"
proof -
  from res obtain cs where cs: "collectChildren (butlast (Results ret))
        (int (length (assemblePath (client m) segments @ ''/'')))
        (int (length (assemblePath (client m) []))) [] = Return cs" and "children = cs"
    using key reply
    by (auto simp: Children_def Let_def split: outcome.splits if_splits)
  with child have "child \<in> set cs" by simp
  from collectChildren_direct [OF cs this]
  obtain r kv where "r \<in> set (butlast (Results ret))" "KV r = Some kv"
    "\<not> hasSlashFrom (pairKey kv) (int (length (assemblePath (client m) segments @ ''/'')))"
    "detachChild (pairKey kv) (int (length (assemblePath (client m) segments @ ''/'')))
       (int (length (assemblePath (client m) []))) = Return child"
    by auto
  then show ?thesis by blast
qed

text \<open>
  Claim C8. \<open>detachChild\<close> returns the empty string when the path has a \<^verbatim>\<open>/\<close> at or
  after the prefix length (the name of a grandchild). Otherwise, for a prefix length and
  a mount prefix length that are lengths of prefixes of the path (not negative, the
  second one not beyond the end of the path), it returns \<^verbatim>\<open>/\<close> followed by the whole
  path when the mount prefix length is 0, and the path from the mount prefix length on
  otherwise. So every name that \<open>Children\<close> lists is what \<open>detachChild\<close> made of a key
  of the tree listing that has no \<^verbatim>\<open>/\<close> after the prefix of the listed key: a direct
  child.
\<close>

theorem detachChild_direct_children:
  "(hasSlashFrom path nPrefix \<longrightarrow> detachChild path nPrefix nGlobalPrefix = Return [])
   \<and> (\<not> hasSlashFrom path nPrefix \<and> 0 \<le> nPrefix \<and> 0 \<le> nGlobalPrefix
        \<and> nGlobalPrefix \<le> int (length path) \<longrightarrow>
        detachChild path nPrefix nGlobalPrefix =
          Return (if nGlobalPrefix = 0 then ''/'' @ path else drop (nat nGlobalPrefix) path))
   \<and> (DisassembleKey api key = Some segments
        \<and> txnTxn api [kvOp KVGetTree (assemblePath (client m) segments @ ''/''),
                       kvOp KVGet (assemblePath (client m) segments)] (world m)
            = (Inr (True, ret), w')
        \<and> fst (Children api key watch m) = Return (children, wt, err)
        \<and> child \<in> set children \<longrightarrow>
        (\<exists>r kv. r \<in> set (butlast (Results ret)) \<and> KV r = Some kv
            \<and> \<not> hasSlashFrom (pairKey kv)
                  (int (length (assemblePath (client m) segments @ ''/'')))
            \<and> detachChild (pairKey kv)
                  (int (length (assemblePath (client m) segments @ ''/'')))
                  (int (length (assemblePath (client m) []))) = Return child))"
proof (intro conjI impI)
  assume "hasSlashFrom path nPrefix"
  then show "detachChild path nPrefix nGlobalPrefix = Return []"
    using detachChild_nonempty_direct [of path nPrefix nGlobalPrefix]
    by (simp add: detachChild_def LastIndexByte_ge_iff hasSlashFrom_iff)
next
  assume "\<not> hasSlashFrom path nPrefix \<and> 0 \<le> nPrefix \<and> 0 \<le> nGlobalPrefix
            \<and> nGlobalPrefix \<le> int (length path)"
  then show "detachChild path nPrefix nGlobalPrefix =
          Return (if nGlobalPrefix = 0 then ''/'' @ path else drop (nat nGlobalPrefix) path)"
    using detachChild_eq [of nPrefix nGlobalPrefix path] by simp
next
  assume "DisassembleKey api key = Some segments
        \<and> txnTxn api [kvOp KVGetTree (assemblePath (client m) segments @ ''/''),
                       kvOp KVGet (assemblePath (client m) segments)] (world m)
            = (Inr (True, ret), w')
        \<and> fst (Children api key watch m) = Return (children, wt, err)
        \<and> child \<in> set children"
  then show "\<exists>r kv. r \<in> set (butlast (Results ret)) \<and> KV r = Some kv
            \<and> \<not> hasSlashFrom (pairKey kv)
                  (int (length (assemblePath (client m) segments @ ''/'')))
            \<and> detachChild (pairKey kv)
                  (int (length (assemblePath (client m) segments @ ''/'')))
                  (int (length (assemblePath (client m) []))) = Return child"
    using Children_direct [of api key segments m ret w' watch children wt err child] by blast
qed

theorem detachChild_direct_children_witness:
  "(hasSlashFrom ''a/b/d'' 2 \<and> detachChild ''a/b/d'' 2 0 = Return [])
   \<and> (\<not> hasSlashFrom ''mnt/a/b'' 6 \<and> (0::int) \<le> 6 \<and> (0::int) \<le> 3
        \<and> 3 \<le> int (length ''mnt/a/b'')
        \<and> detachChild ''mnt/a/b'' 6 3 = Return ''/a/b'')
   \<and> (DisassembleKey (scriptedApi (\<lambda>ops. committed [resultAt ''a/b'' 3, resultAt ''a/b/d'' 5,
                                       resultAt ''a/c'' 4, resultAt ''a'' 2]) (\<lambda>p. Inr None)) ''/a''
          = Some [''a'']
        \<and> fst (Children (scriptedApi (\<lambda>ops. committed [resultAt ''a/b'' 3, resultAt ''a/b/d'' 5,
                                       resultAt ''a/c'' 4, resultAt ''a'' 2]) (\<lambda>p. Inr None))
                 ''/a'' False \<lparr>client = New [], world = 0\<rparr>)
          = Return ([''/a/b'', ''/a/c''], None, None)
        \<and> (\<exists>r kv. r \<in> set [resultAt ''a/b'' 3, resultAt ''a/b/d'' 5, resultAt ''a/c'' 4]
              \<and> KV r = Some kv \<and> \<not> hasSlashFrom (pairKey kv) 2
              \<and> detachChild (pairKey kv) 2 0 = Return ''/a/c''))"
proof -
  let ?rs = "[resultAt ''a/b'' 3, resultAt ''a/b/d'' 5, resultAt ''a/c'' 4, resultAt ''a'' 2]"
  let ?api = "scriptedApi (\<lambda>ops. committed ?rs) (\<lambda>p. Inr None)"
  let ?m = "\<lparr>client = New [], world = 0::nat\<rparr>"
  have s1: "hasSlashFrom ''a/b/d'' 2"
    by (simp add: hasSlashFrom_def)
  have s2: "\<not> hasSlashFrom ''mnt/a/b'' 6 \<and> (0::int) \<le> 6 \<and> (0::int) \<le> 3
              \<and> 3 \<le> int (length ''mnt/a/b'')"
    by (simp add: hasSlashFrom_def)
  have key: "DisassembleKey ?api ''/a'' = Some [''a'']"
    by (simp add: scriptedApi_def sampleDisassembleKey_def)
  have path: "assemblePath (client ?m) [''a''] = ''a''" "assemblePath (client ?m) [] = []"
    by (simp_all add: assemblePath_def New_def)
  have reply: "txnTxn ?api [kvOp KVGetTree (assemblePath (client ?m) [''a''] @ ''/''),
                            kvOp KVGet (assemblePath (client ?m) [''a''])] (world ?m)
                 = (Inr (True, \<lparr>Results = ?rs, Errors = []\<rparr>), Suc 0)"
    by (simp add: scriptedApi_def committed_def)
  have run: "fst (Children ?api ''/a'' False ?m) = Return ([''/a/b'', ''/a/c''], None, None)"
    by (simp add: Children_def scriptedApi_def sampleDisassembleKey_def resultAt_def New_def
        committed_def assemblePath_def kvOp_def detachChild_def LastIndexByte_def sliceFrom_def)
  have mem: "''/a/c'' \<in> set [''/a/b'', ''/a/c'']"
    by simp
  note t1 = detachChild_direct_children
    [where path = "''a/b/d''" and nPrefix = 2 and nGlobalPrefix = 0, THEN conjunct1]
  note t2 = detachChild_direct_children
    [where path = "''mnt/a/b''" and nPrefix = 6 and nGlobalPrefix = 3,
     THEN conjunct2, THEN conjunct1]
  note t3 = detachChild_direct_children
    [where api = ?api and key = "''/a''" and segments = "[''a'']" and m = ?m
       and ret = "\<lparr>Results = ?rs, Errors = []\<rparr>" and w' = "Suc 0" and watch = False
       and children = "[''/a/b'', ''/a/c'']" and wt = None and err = None
       and child = "''/a/c''", THEN conjunct2, THEN conjunct2]
  have c1: "detachChild ''a/b/d'' 2 0 = Return []"
    using t1 s1 by simp
  have c2: "detachChild ''mnt/a/b'' 6 3 = Return ''/a/b''"
    using t2 s2 by simp
  have c3: "\<exists>r kv. r \<in> set [resultAt ''a/b'' 3, resultAt ''a/b/d'' 5, resultAt ''a/c'' 4]
              \<and> KV r = Some kv \<and> \<not> hasSlashFrom (pairKey kv) 2
              \<and> detachChild (pairKey kv) 2 0 = Return ''/a/c''"
    using t3 key reply run mem unfolding path by simp
  from s1 s2 key run c1 c2 c3 show ?thesis by blast
qed

section \<open>Properties of the single operations\<close>

lemma Create_error_version:
  assumes "Create api key val lease m = (Return (v, Some err), m')"
  shows "v = 0"
proof (cases "DisassembleKey api key")
  case None
  with assms show ?thesis by (simp add: Create_def)
next
  case (Some segments)
  with assms show ?thesis
    by (auto simp: Create_def Let_def
             split: prod.splits sum.splits if_splits option.splits outcome.splits list.splits)
qed

text \<open>
  Claim C2. When the batch of \<open>Create\<close> has run (for a leased create: after the session
  was obtained) and has not committed, the first error of the answer decides the result:
  a slot below the number of parent checks gives \<open>OpErrNoEntry\<close>, the slot equal to it
  (the check-not-exists) gives \<open>OpErrEntryExists\<close>, any later slot gives the
  \<open>Unexpected\<close> error with the slot and its text.
\<close>

theorem Create_failure_by_slot:
  assumes "DisassembleKey api key = Some segments"
    and "lease \<Longrightarrow> getOrCreateSessionId api m = ((sid, None), m1)"
    and "\<not> lease \<Longrightarrow> m1 = m"
    and "txnTxn api
           (maybeGetParent (client m) segments
            @ [kvOp KVCheckNotExists (assemblePath (client m) segments),
               if lease
               then \<lparr>Verb = KVLock, Key = assemblePath (client m) segments,
                     Value = val, Index = 0, Session = sid\<rparr>
               else \<lparr>Verb = KVSet, Key = assemblePath (client m) segments,
                     Value = val, Index = 0, Session = []\<rparr>])
           (world m1) = (Inr (False, ret), w')"
    and "Errors ret = firstError # others"
  shows "Create api key val lease m =
           (Return (0, Some (if OpIndex firstError < int (length (maybeGetParent (client m) segments))
                             then OpErrNoEntry
                             else if OpIndex firstError
                                       = int (length (maybeGetParent (client m) segments))
                             then OpErrEntryExists
                             else Unexpected (What firstError) (OpIndex firstError))),
            m1\<lparr>world := w'\<rparr>)"
proof (cases lease)
  case True
  with assms show ?thesis by (simp add: Create_def Let_def)
next
  case False
  with assms show ?thesis by (simp add: Create_def Let_def)
qed

theorem Create_failure_by_slot_witness:
  "DisassembleKey (scriptedApi (\<lambda>ops. failedAt 1) (\<lambda>p. Inr None)) ''/a/b'' = Some [''a'', ''b'']
   \<and> Create (scriptedApi (\<lambda>ops. failedAt 1) (\<lambda>p. Inr None)) ''/a/b'' [1] False
        \<lparr>client = New [''mnt''], world = 0\<rparr>
       = (Return (0, Some OpErrEntryExists), \<lparr>client = New [''mnt''], world = Suc 0\<rparr>)"
proof -
  let ?api = "scriptedApi (\<lambda>ops. failedAt 1) (\<lambda>p. Inr None)"
  let ?m = "\<lparr>client = New [''mnt''], world = 0::nat\<rparr>"
  have key: "DisassembleKey ?api ''/a/b'' = Some [''a'', ''b'']"
    by (simp add: scriptedApi_def sampleDisassembleKey_def)
  have reply: "txnTxn ?api ops (world ?m)
      = (Inr (False, \<lparr>Results = [], Errors = [\<lparr>OpIndex = 1, What = ''failed''\<rparr>]\<rparr>), Suc 0)" for ops
    by (simp add: scriptedApi_def failedAt_def)
  have parent: "length (maybeGetParent c [''a'', ''b'']) = Suc 0" for c
    by (simp add: maybeGetParent_def)
  from Create_failure_by_slot [of ?api "''/a/b''" "[''a'', ''b'']" False ?m "[]" ?m "[1]"
      "\<lparr>Results = [], Errors = [\<lparr>OpIndex = 1, What = ''failed''\<rparr>]\<rparr>" "Suc 0"
      "\<lparr>OpIndex = 1, What = ''failed''\<rparr>" "[]", OF key _ _ reply]
  have "Create ?api ''/a/b'' [1] False ?m
       = (Return (0, Some OpErrEntryExists), \<lparr>client = New [''mnt''], world = Suc 0\<rparr>)"
    by (simp add: parent)
  with key show ?thesis by simp
qed

text \<open>
  Claim C3. For a version other than 0, \<open>Cas\<close> sends exactly the two slots get(path)
  and compare-and-swap(path, value, ver). When that batch does not commit, a first
  error at slot 0 gives \<open>OpErrNoEntry\<close> and a first error at any other slot (the
  compare-and-swap) gives version 0 and no error; when it commits, the version is the
  modify index of the last result.
\<close>

theorem Cas_version_batch:
  "ver \<noteq> 0 \<and> DisassembleKey api key = Some segments
    \<and> txnTxn api [kvOp KVGet (assemblePath (client m) segments),
                   \<lparr>Verb = KVCAS, Key = assemblePath (client m) segments,
                    Value = val, Index = ver, Session = []\<rparr>] (world m)
        = (Inr (ok, ret), w')
   \<longrightarrow> (\<not> ok \<and> Errors ret = firstError # others \<longrightarrow>
          Cas api key val ver m =
            (Return (0, if OpIndex firstError = 0 then Some OpErrNoEntry else None),
             m\<lparr>world := w'\<rparr>))
     \<and> (ok \<and> Results ret \<noteq> [] \<and> KV (last (Results ret)) = Some kv \<longrightarrow>
          Cas api key val ver m = (Return (ModifyIndex kv, None), m\<lparr>world := w'\<rparr>))"
  by (simp add: Cas_def Let_def lastModifyIndex_def)

text \<open>
  Claim C5. \<open>Erase\<close> sends exactly get(path), then delete(path) for version 0 and
  delete-if-version(path, ver) otherwise, then delete-subtree(path + "/"). When that
  batch does not commit, a first error at slot 0 gives \<open>OpErrNoEntry\<close> and a first
  error at any later slot gives no error; no result of the batch is read.
\<close>

theorem Erase_batch:
  "DisassembleKey api key = Some segments
    \<and> txnTxn api [kvOp KVGet (assemblePath (client m) segments),
                   if ver = 0 then kvOp KVDelete (assemblePath (client m) segments)
                   else \<lparr>Verb = KVDeleteCAS, Key = assemblePath (client m) segments,
                         Value = [], Index = ver, Session = []\<rparr>,
                   kvOp KVDeleteTree (assemblePath (client m) segments @ ''/'')] (world m)
        = (Inr (ok, ret), w')
   \<longrightarrow> (\<not> ok \<and> Errors ret = firstError # others \<longrightarrow>
          Erase api key ver m =
            (Return (if OpIndex firstError = 0 then Some OpErrNoEntry else None),
             m\<lparr>world := w'\<rparr>))
     \<and> (ok \<longrightarrow> Erase api key ver m = (Return None, m\<lparr>world := w'\<rparr>))"
  by (simp add: Erase_def Let_def)

text \<open>
  Claim C9. When the batch of \<open>Set\<close> has run and has not committed, \<open>Set\<close> returns
  \<open>OpErrNoEntry\<close> whatever the answer says about the failing slot; and no call of
  \<open>Set\<close> returns \<open>OpErrEntryExists\<close> or an \<open>Unexpected\<close> error.
\<close>

theorem Set_failure_NoEntry:
  "(DisassembleKey api key = Some segments
     \<and> txnTxn api (maybeGetParent (client m) segments
                    @ [\<lparr>Verb = KVSet, Key = assemblePath (client m) segments,
                        Value = val, Index = 0, Session = []\<rparr>]) (world m)
         = (Inr (False, ret), w')
    \<longrightarrow> Set api key val m = (Return (0, Some OpErrNoEntry), m\<lparr>world := w'\<rparr>))
   \<and> (fst (Set api key val m) = Return (v, Some err)
    \<longrightarrow> err \<noteq> OpErrEntryExists \<and> err \<noteq> Unexpected what slot)"
  by (auto simp: Set_def Let_def
           split: option.splits prod.splits sum.splits if_splits outcome.splits)

text \<open>
  Claim C10. For a key the validator accepts, when the store has no entry at its path,
  \<open>Exists\<close> returns version 0, no watch and no error, whether or not a watch was asked
  for, while \<open>Get\<close> returns \<open>OpErrNoEntry\<close>.
\<close>

theorem Exists_absent:
  assumes "DisassembleKey api key = Some segments"
    and "kvGet api (assemblePath (client m) segments) (world m) = (Inr None, w')"
  shows "Exists api key watch m = ((0, None, None), m\<lparr>world := w'\<rparr>)
         \<and> Get api key watch m = ((0, [], None, Some OpErrNoEntry), m\<lparr>world := w'\<rparr>)"
  using assms by (simp add: Exists_def Get_def Let_def)

text \<open>
  Claim C4. \<open>Cas\<close> with version 0 is \<open>Create\<close> without lease: a successful create
  gives its version, \<open>OpErrEntryExists\<close> becomes version 0 without error, and every
  other error of \<open>Create\<close> is returned as \<open>Create\<close> returned it (for a key the
  validator rejects that is its error).
\<close>

theorem Cas_zero_is_Create:
  "(Create api key val False m = (Return (v, None), m')
      \<longrightarrow> Cas api key val 0 m = (Return (v, None), m'))
   \<and> (Create api key val False m = (Return (v, Some OpErrEntryExists), m')
      \<longrightarrow> Cas api key val 0 m = (Return (0, None), m'))
   \<and> (Create api key val False m = (Return (v, Some err), m') \<and> err \<noteq> OpErrEntryExists
      \<longrightarrow> Cas api key val 0 m = (Return (v, Some err), m'))
   \<and> (DisassembleKey api key = None
      \<longrightarrow> Cas api key val 0 m = (Return (0, Some MalformedKey), m))"
proof (intro conjI impI)
  assume "Create api key val False m = (Return (v, None), m')"
  then show "Cas api key val 0 m = (Return (v, None), m')"
    by (simp add: Cas_def)
next
  assume "Create api key val False m = (Return (v, Some OpErrEntryExists), m')"
  then show "Cas api key val 0 m = (Return (0, None), m')"
    by (simp add: Cas_def)
next
  assume a: "Create api key val False m = (Return (v, Some err), m') \<and> err \<noteq> OpErrEntryExists"
  then have "v = 0" using Create_error_version by blast
  with a show "Cas api key val 0 m = (Return (v, Some err), m')"
    by (simp add: Cas_def)
next
  assume "DisassembleKey api key = None"
  then show "Cas api key val 0 m = (Return (0, Some MalformedKey), m)"
    by (simp add: Cas_def Create_def)
qed

theorem Cas_version_batch_witness:
  "(7 :: Version) \<noteq> 0
   \<and> DisassembleKey (scriptedApi (\<lambda>ops. Inl ''unused'') (\<lambda>p. Inr None)) ''/a'' = Some [''a'']
   \<and> Cas (scriptedApi
            (\<lambda>ops. if ops = [kvOp KVGet ''mnt/a'',
                             \<lparr>Verb = KVCAS, Key = ''mnt/a'', Value = [1], Index = 7, Session = []\<rparr>]
                    then failedAt 1 else Inl ''other batch'') (\<lambda>p. Inr None))
          ''/a'' [1] 7 \<lparr>client = New [''mnt''], world = 0\<rparr>
       = (Return (0, None), \<lparr>client = New [''mnt''], world = Suc 0\<rparr>)
   \<and> Cas (scriptedApi
            (\<lambda>ops. if ops = [kvOp KVGet ''mnt/a'',
                             \<lparr>Verb = KVCAS, Key = ''mnt/a'', Value = [1], Index = 7, Session = []\<rparr>]
                    then failedAt 0 else Inl ''other batch'') (\<lambda>p. Inr None))
          ''/a'' [1] 7 \<lparr>client = New [''mnt''], world = 0\<rparr>
       = (Return (0, Some OpErrNoEntry), \<lparr>client = New [''mnt''], world = Suc 0\<rparr>)
   \<and> Cas (scriptedApi
            (\<lambda>ops. if ops = [kvOp KVGet ''mnt/a'',
                             \<lparr>Verb = KVCAS, Key = ''mnt/a'', Value = [1], Index = 7, Session = []\<rparr>]
                    then committed [resultAt ''mnt/a'' 7, resultAt ''mnt/a'' 9]
                    else Inl ''other batch'') (\<lambda>p. Inr None))
          ''/a'' [1] 7 \<lparr>client = New [''mnt''], world = 0\<rparr>
       = (Return (9, None), \<lparr>client = New [''mnt''], world = Suc 0\<rparr>)"
proof -
  let ?m = "\<lparr>client = New [''mnt''], world = 0::nat\<rparr>"
  let ?ops = "[kvOp KVGet ''mnt/a'',
               \<lparr>Verb = KVCAS, Key = ''mnt/a'', Value = [1], Index = 7, Session = []\<rparr>]"
  let ?api = "\<lambda>reply. scriptedApi (\<lambda>ops. if ops = ?ops then reply else Inl ''other batch'')
                                    (\<lambda>p. Inr None)"
  have key: "DisassembleKey (scriptedApi t g) ''/a'' = Some [''a'']" for t g
    by (simp add: scriptedApi_def sampleDisassembleKey_def)
  have path: "assemblePath (client ?m) [''a''] = ''mnt/a''"
    by (simp add: assemblePath_def New_def)
  have reply: "txnTxn (?api r) ?ops (world ?m) = (r, Suc 0)" for r
    by (simp add: scriptedApi_def)
  have lost: "Cas (?api (failedAt 1)) ''/a'' [1] 7 ?m
                = (Return (0, None), \<lparr>client = New [''mnt''], world = Suc 0\<rparr>)"
    using Cas_version_batch [where api = "?api (failedAt 1)" and key = "''/a''"
        and segments = "[''a'']" and m = ?m and ver = 7 and val = "[1]" and ok = False
        and ret = "\<lparr>Results = [], Errors = [\<lparr>OpIndex = 1, What = ''failed''\<rparr>]\<rparr>"
        and w' = "Suc 0" and firstError = "\<lparr>OpIndex = 1, What = ''failed''\<rparr>"
        and others = "[]"]
      key reply [of "failedAt 1"]
    unfolding path by (simp add: failedAt_def)
  have missing: "Cas (?api (failedAt 0)) ''/a'' [1] 7 ?m
                = (Return (0, Some OpErrNoEntry), \<lparr>client = New [''mnt''], world = Suc 0\<rparr>)"
    using Cas_version_batch [where api = "?api (failedAt 0)" and key = "''/a''"
        and segments = "[''a'']" and m = ?m and ver = 7 and val = "[1]" and ok = False
        and ret = "\<lparr>Results = [], Errors = [\<lparr>OpIndex = 0, What = ''failed''\<rparr>]\<rparr>"
        and w' = "Suc 0" and firstError = "\<lparr>OpIndex = 0, What = ''failed''\<rparr>"
        and others = "[]"]
      key reply [of "failedAt 0"]
    unfolding path by (simp add: failedAt_def)
  have swapped: "Cas (?api (committed [resultAt ''mnt/a'' 7, resultAt ''mnt/a'' 9])) ''/a'' [1] 7 ?m
                = (Return (9, None), \<lparr>client = New [''mnt''], world = Suc 0\<rparr>)"
    using Cas_version_batch [where api = "?api (committed [resultAt ''mnt/a'' 7, resultAt ''mnt/a'' 9])"
        and key = "''/a''"
        and segments = "[''a'']" and m = ?m and ver = 7 and val = "[1]" and ok = True
        and ret = "\<lparr>Results = [resultAt ''mnt/a'' 7, resultAt ''mnt/a'' 9], Errors = []\<rparr>"
        and w' = "Suc 0"
        and kv = "\<lparr>pairKey = ''mnt/a'', ModifyIndex = 9, pairValue = []\<rparr>"]
      key reply [of "committed [resultAt ''mnt/a'' 7, resultAt ''mnt/a'' 9]"]
    unfolding path by (simp add: committed_def resultAt_def)
  have "(7 :: Version) \<noteq> 0" by simp
  with key lost missing swapped show ?thesis by blast
qed

theorem Erase_batch_witness:
  "DisassembleKey (scriptedApi (\<lambda>ops. Inl ''unused'') (\<lambda>p. Inr None)) ''/a'' = Some [''a'']
   \<and> Erase (scriptedApi
            (\<lambda>ops. if ops = [kvOp KVGet ''mnt/a'',
                             \<lparr>Verb = KVDeleteCAS, Key = ''mnt/a'', Value = [], Index = 7, Session = []\<rparr>,
                             kvOp KVDeleteTree ''mnt/a/'']
                    then failedAt 1 else Inl ''other batch'') (\<lambda>p. Inr None))
          ''/a'' 7 \<lparr>client = New [''mnt''], world = 0\<rparr>
       = (Return None, \<lparr>client = New [''mnt''], world = Suc 0\<rparr>)
   \<and> Erase (scriptedApi
            (\<lambda>ops. if ops = [kvOp KVGet ''mnt/a'', kvOp KVDelete ''mnt/a'',
                             kvOp KVDeleteTree ''mnt/a/'']
                    then failedAt 0 else Inl ''other batch'') (\<lambda>p. Inr None))
          ''/a'' 0 \<lparr>client = New [''mnt''], world = 0\<rparr>
       = (Return (Some OpErrNoEntry), \<lparr>client = New [''mnt''], world = Suc 0\<rparr>)
   \<and> Erase (scriptedApi
            (\<lambda>ops. if ops = [kvOp KVGet ''mnt/a'', kvOp KVDelete ''mnt/a'',
                             kvOp KVDeleteTree ''mnt/a/'']
                    then committed [resultAt ''mnt/a'' 7] else Inl ''other batch'') (\<lambda>p. Inr None))
          ''/a'' 0 \<lparr>client = New [''mnt''], world = 0\<rparr>
       = (Return None, \<lparr>client = New [''mnt''], world = Suc 0\<rparr>)"
proof -
  let ?m = "\<lparr>client = New [''mnt''], world = 0::nat\<rparr>"
  let ?ops = "\<lambda>ver. [kvOp KVGet ''mnt/a'',
               if ver = 0 then kvOp KVDelete ''mnt/a''
               else \<lparr>Verb = KVDeleteCAS, Key = ''mnt/a'', Value = [], Index = ver, Session = []\<rparr>,
               kvOp KVDeleteTree ''mnt/a/'']"
  let ?api = "\<lambda>ver reply. scriptedApi (\<lambda>ops. if ops = ?ops ver then reply else Inl ''other batch'')
                                    (\<lambda>p. Inr None)"
  have key: "DisassembleKey (scriptedApi t g) ''/a'' = Some [''a'']" for t g
    by (simp add: scriptedApi_def sampleDisassembleKey_def)
  have path: "assemblePath (client ?m) [''a''] = ''mnt/a''"
    by (simp add: assemblePath_def New_def)
  have reply: "txnTxn (?api ver r) (?ops ver) (world ?m) = (r, Suc 0)" for r ver
    by (simp add: scriptedApi_def)
  have raced: "Erase (?api 7 (failedAt 1)) ''/a'' 7 ?m
                = (Return None, \<lparr>client = New [''mnt''], world = Suc 0\<rparr>)"
    using Erase_batch [where api = "?api 7 (failedAt 1)" and key = "''/a''"
        and segments = "[''a'']" and m = ?m and ver = 7 and ok = False
        and ret = "\<lparr>Results = [], Errors = [\<lparr>OpIndex = 1, What = ''failed''\<rparr>]\<rparr>"
        and w' = "Suc 0" and firstError = "\<lparr>OpIndex = 1, What = ''failed''\<rparr>"
        and others = "[]"]
      key reply [of 7 "failedAt 1"]
    unfolding path by (simp add: failedAt_def)
  have missing: "Erase (?api 0 (failedAt 0)) ''/a'' 0 ?m
                = (Return (Some OpErrNoEntry), \<lparr>client = New [''mnt''], world = Suc 0\<rparr>)"
    using Erase_batch [where api = "?api 0 (failedAt 0)" and key = "''/a''"
        and segments = "[''a'']" and m = ?m and ver = 0 and ok = False
        and ret = "\<lparr>Results = [], Errors = [\<lparr>OpIndex = 0, What = ''failed''\<rparr>]\<rparr>"
        and w' = "Suc 0" and firstError = "\<lparr>OpIndex = 0, What = ''failed''\<rparr>"
        and others = "[]"]
      key reply [of 0 "failedAt 0"]
    unfolding path by (simp add: failedAt_def)
  have erased: "Erase (?api 0 (committed [resultAt ''mnt/a'' 7])) ''/a'' 0 ?m
                = (Return None, \<lparr>client = New [''mnt''], world = Suc 0\<rparr>)"
    using Erase_batch [where api = "?api 0 (committed [resultAt ''mnt/a'' 7])" and key = "''/a''"
        and segments = "[''a'']" and m = ?m and ver = 0 and ok = True
        and ret = "\<lparr>Results = [resultAt ''mnt/a'' 7], Errors = []\<rparr>"
        and w' = "Suc 0"]
      key reply [of 0 "committed [resultAt ''mnt/a'' 7]"]
    unfolding path by (simp add: committed_def)
  have a: "?ops 7 = [kvOp KVGet ''mnt/a'',
              \<lparr>Verb = KVDeleteCAS, Key = ''mnt/a'', Value = [], Index = 7, Session = []\<rparr>,
              kvOp KVDeleteTree ''mnt/a/'']"
    and b: "?ops 0 = [kvOp KVGet ''mnt/a'', kvOp KVDelete ''mnt/a'', kvOp KVDeleteTree ''mnt/a/'']"
    by simp_all
  from key raced missing erased show ?thesis unfolding a b by blast
qed

theorem Set_failure_NoEntry_witness:
  "DisassembleKey (scriptedApi (\<lambda>ops. Inl ''unused'') (\<lambda>p. Inr None)) ''/a/b'' = Some [''a'', ''b'']
   \<and> Set (scriptedApi
            (\<lambda>ops. if ops = [kvOp KVGet ''mnt/a'',
                             \<lparr>Verb = KVSet, Key = ''mnt/a/b'', Value = [1], Index = 0, Session = []\<rparr>]
                    then failedAt 0 else Inl ''other batch'') (\<lambda>p. Inr None))
          ''/a/b'' [1] \<lparr>client = New [''mnt''], world = 0\<rparr>
       = (Return (0, Some OpErrNoEntry), \<lparr>client = New [''mnt''], world = Suc 0\<rparr>)
   \<and> OpErrNoEntry \<noteq> OpErrEntryExists \<and> OpErrNoEntry \<noteq> Unexpected ''failed'' 0"
proof -
  let ?m = "\<lparr>client = New [''mnt''], world = 0::nat\<rparr>"
  let ?ops = "[kvOp KVGet ''mnt/a'',
               \<lparr>Verb = KVSet, Key = ''mnt/a/b'', Value = [1], Index = 0, Session = []\<rparr>]"
  let ?api = "scriptedApi (\<lambda>ops. if ops = ?ops then failedAt 0 else Inl ''other batch'')
                          (\<lambda>p. Inr None)"
  have key: "DisassembleKey (scriptedApi t g) ''/a/b'' = Some [''a'', ''b'']" for t g
    by (simp add: scriptedApi_def sampleDisassembleKey_def)
  have path: "assemblePath (client ?m) [''a'', ''b''] = ''mnt/a/b''"
    "maybeGetParent (client ?m) [''a'', ''b''] = [kvOp KVGet ''mnt/a'']"
    by (simp_all add: assemblePath_def maybeGetParent_def New_def)
  have reply: "txnTxn ?api ?ops (world ?m) = (failedAt 0, Suc 0)"
    by (simp add: scriptedApi_def)
  note t = Set_failure_NoEntry [where api = ?api and key = "''/a/b''"
        and segments = "[''a'', ''b'']" and m = ?m and val = "[1]"
        and ret = "\<lparr>Results = [], Errors = [\<lparr>OpIndex = 0, What = ''failed''\<rparr>]\<rparr>"
        and w' = "Suc 0" and v = 0 and err = OpErrNoEntry and what = "''failed''" and slot = 0]
  have run: "Set ?api ''/a/b'' [1] ?m
                = (Return (0, Some OpErrNoEntry), \<lparr>client = New [''mnt''], world = Suc 0\<rparr>)"
    using t [THEN conjunct1] key reply unfolding path by (simp add: failedAt_def)
  then have "fst (Set ?api ''/a/b'' [1] ?m) = Return (0, Some OpErrNoEntry)"
    by simp
  with t [THEN conjunct2]
  have "OpErrNoEntry \<noteq> OpErrEntryExists \<and> OpErrNoEntry \<noteq> Unexpected ''failed'' 0"
    by blast
  with key run show ?thesis by blast
qed

theorem Exists_absent_witness:
  "DisassembleKey (scriptedApi (\<lambda>ops. Inl ''unused'')
                    (\<lambda>p. if p = ''mnt/a/b'' then Inr None else Inl ''other path'')) ''/a/b''
     = Some [''a'', ''b'']
   \<and> Exists (scriptedApi (\<lambda>ops. Inl ''unused'')
                (\<lambda>p. if p = ''mnt/a/b'' then Inr None else Inl ''other path''))
        ''/a/b'' True \<lparr>client = New [''mnt''], world = 0\<rparr>
       = ((0, None, None), \<lparr>client = New [''mnt''], world = Suc 0\<rparr>)
   \<and> Get (scriptedApi (\<lambda>ops. Inl ''unused'')
                (\<lambda>p. if p = ''mnt/a/b'' then Inr None else Inl ''other path''))
        ''/a/b'' True \<lparr>client = New [''mnt''], world = 0\<rparr>
       = ((0, [], None, Some OpErrNoEntry), \<lparr>client = New [''mnt''], world = Suc 0\<rparr>)"
proof -
  let ?m = "\<lparr>client = New [''mnt''], world = 0::nat\<rparr>"
  let ?api = "scriptedApi (\<lambda>ops. Inl ''unused'')
                (\<lambda>p. if p = ''mnt/a/b'' then Inr None else Inl ''other path'')"
  have key: "DisassembleKey ?api ''/a/b'' = Some [''a'', ''b'']"
    by (simp add: scriptedApi_def sampleDisassembleKey_def)
  have absent: "kvGet ?api (assemblePath (client ?m) [''a'', ''b'']) (world ?m) = (Inr None, Suc 0)"
    by (simp add: scriptedApi_def assemblePath_def New_def)
  from Exists_absent [OF key absent, of True] key show ?thesis by simp
qed

theorem Cas_zero_is_Create_witness:
  "Create (scriptedApi (\<lambda>ops. committed [resultAt ''mnt/a'' 5]) (\<lambda>p. Inr None)) ''/a'' [1] False
      \<lparr>client = New [''mnt''], world = 0\<rparr>
     = (Return (5, None), \<lparr>client = New [''mnt''], world = Suc 0\<rparr>)
   \<and> Cas (scriptedApi (\<lambda>ops. committed [resultAt ''mnt/a'' 5]) (\<lambda>p. Inr None)) ''/a'' [1] 0
      \<lparr>client = New [''mnt''], world = 0\<rparr>
     = (Return (5, None), \<lparr>client = New [''mnt''], world = Suc 0\<rparr>)
   \<and> Create (scriptedApi (\<lambda>ops. failedAt 0) (\<lambda>p. Inr None)) ''/a'' [1] False
      \<lparr>client = New [''mnt''], world = 0\<rparr>
     = (Return (0, Some OpErrEntryExists), \<lparr>client = New [''mnt''], world = Suc 0\<rparr>)
   \<and> Cas (scriptedApi (\<lambda>ops. failedAt 0) (\<lambda>p. Inr None)) ''/a'' [1] 0
      \<lparr>client = New [''mnt''], world = 0\<rparr>
     = (Return (0, None), \<lparr>client = New [''mnt''], world = Suc 0\<rparr>)
   \<and> Create (scriptedApi (\<lambda>ops. failedAt 0) (\<lambda>p. Inr None)) ''/a/b'' [1] False
      \<lparr>client = New [''mnt''], world = 0\<rparr>
     = (Return (0, Some OpErrNoEntry), \<lparr>client = New [''mnt''], world = Suc 0\<rparr>)
   \<and> OpErrNoEntry \<noteq> OpErrEntryExists
   \<and> Cas (scriptedApi (\<lambda>ops. failedAt 0) (\<lambda>p. Inr None)) ''/a/b'' [1] 0
      \<lparr>client = New [''mnt''], world = 0\<rparr>
     = (Return (0, Some OpErrNoEntry), \<lparr>client = New [''mnt''], world = Suc 0\<rparr>)
   \<and> DisassembleKey (scriptedApi (\<lambda>ops. failedAt 0) (\<lambda>p. Inr None)) ''a//b'' = None
   \<and> Cas (scriptedApi (\<lambda>ops. failedAt 0) (\<lambda>p. Inr None)) ''a//b'' [1] 0
      \<lparr>client = New [''mnt''], world = 0\<rparr>
     = (Return (0, Some MalformedKey), \<lparr>client = New [''mnt''], world = 0\<rparr>)"
proof -
  let ?m = "\<lparr>client = New [''mnt''], world = 0::nat\<rparr>"
  let ?m' = "\<lparr>client = New [''mnt''], world = Suc 0\<rparr>"
  let ?good = "scriptedApi (\<lambda>ops. committed [resultAt ''mnt/a'' 5]) (\<lambda>p. Inr None)"
  let ?bad = "scriptedApi (\<lambda>ops. failedAt 0) (\<lambda>p. Inr None)"
  have c1: "Create ?good ''/a'' [1] False ?m = (Return (5, None), ?m')"
    by (simp add: Create_def scriptedApi_def sampleDisassembleKey_def committed_def resultAt_def
        maybeGetParent_def lastModifyIndex_def)
  have c2: "Create ?bad ''/a'' [1] False ?m = (Return (0, Some OpErrEntryExists), ?m')"
    by (simp add: Create_def scriptedApi_def sampleDisassembleKey_def failedAt_def
        maybeGetParent_def)
  have c3: "Create ?bad ''/a/b'' [1] False ?m = (Return (0, Some OpErrNoEntry), ?m')"
    by (simp add: Create_def scriptedApi_def sampleDisassembleKey_def failedAt_def
        maybeGetParent_def)
  have c4: "DisassembleKey ?bad ''a//b'' = None"
    by (simp add: scriptedApi_def sampleDisassembleKey_def)
  have ne: "OpErrNoEntry \<noteq> OpErrEntryExists" by simp
  have r1: "Cas ?good ''/a'' [1] 0 ?m = (Return (5, None), ?m')"
    using Cas_zero_is_Create [where api = ?good and key = "''/a''" and val = "[1]"
        and m = ?m and v = 5 and m' = ?m', THEN conjunct1] c1 by simp
  have r2: "Cas ?bad ''/a'' [1] 0 ?m = (Return (0, None), ?m')"
    using Cas_zero_is_Create [where api = ?bad and key = "''/a''" and val = "[1]"
        and m = ?m and v = 0 and m' = ?m', THEN conjunct2, THEN conjunct1] c2 by simp
  have r3: "Cas ?bad ''/a/b'' [1] 0 ?m = (Return (0, Some OpErrNoEntry), ?m')"
    using Cas_zero_is_Create [where api = ?bad and key = "''/a/b''" and val = "[1]"
        and m = ?m and v = 0 and m' = ?m' and err = OpErrNoEntry,
        THEN conjunct2, THEN conjunct2, THEN conjunct1] c3 ne by simp
  have r4: "Cas ?bad ''a//b'' [1] 0 ?m = (Return (0, Some MalformedKey), ?m)"
    using Cas_zero_is_Create [where api = ?bad and key = "''a//b''" and val = "[1]"
        and m = ?m, THEN conjunct2, THEN conjunct2, THEN conjunct2] c4 by simp
  from c1 c2 c3 c4 ne r1 r2 r3 r4 show ?thesis by blast
qed

end
